theory Spec2Isabelle
  imports Main "HOL-Library.Multiset" "HOL-Library.Char_ord" "HOL-Library.List_Lexorder"
    "HOL-Library.Product_Lexorder"
begin

section \<open>Python values, strings and errors\<close>

text \<open>
  A \<open>char\<close> stands for a code point below 256. The exceptions the modelled code can
  raise are values of \<open>py_error\<close>; a function that can raise returns
  \<open>py_error + 'a\<close>, with \<open>Inl\<close> for the raised exception. \<open>ServiceError\<close> is any
  exception raised by an external collaborator (graph backend, generation service, judge
  service), carrying its message.
\<close>

datatype py_error =
    TypeError
  | KeyError
  | ValueError
  | IndexError
  | AttributeError
  | JSONDecodeError
  | ServiceError string

text \<open>
  The values a result cursor hands out per column. A \<open>scalar\<close> is hashable; a list or a
  dict (Kuzu LIST, STRUCT, NODE and REL columns) is not, and is the one constructor
  \<open>Unhashable\<close>. The other hashable values a cursor can hand out (floats, decimals,
  dates, UUIDs, bytes) are outside this model.
\<close>

datatype scalar = SNone | SBool bool | SInt int | SStr string

datatype pyval = Hashable scalar | Unhashable

text \<open>\<open>str(int)\<close>: decimal digits, a leading minus sign for a negative number.\<close>

definition digit_char :: "nat \<Rightarrow> char" where
  "digit_char d = ''0123456789'' ! d"

function str_nat :: "nat \<Rightarrow> string" where
  "str_nat n = (if n < 10 then [digit_char n] else str_nat (n div 10) @ [digit_char (n mod 10)])"
  by pat_completeness auto
termination
  by (relation "measure id") auto

declare str_nat.simps [simp del]

definition str_int :: "int \<Rightarrow> string" where
  "str_int i = (if i < 0 then CHR ''-'' # str_nat (nat (- i)) else str_nat (nat i))"

text \<open>\<open>str(v)\<close>, which is also what an f-string field \<open>{v}\<close> renders.\<close>

fun pystr :: "scalar \<Rightarrow> string" where
  "pystr SNone = ''None''"
| "pystr (SBool b) = (if b then ''True'' else ''False'')"
| "pystr (SInt i) = str_int i"
| "pystr (SStr s) = s"

text \<open>
  Python's \<open>==\<close> on these values: \<open>bool\<close> is a subtype of \<open>int\<close>, so \<open>True == 1\<close> and
  \<open>False == 0\<close> (with equal hashes); \<open>None\<close> and strings equal only themselves.
\<close>

fun as_int :: "scalar \<Rightarrow> int option" where
  "as_int (SBool b) = Some (if b then 1 else 0)"
| "as_int (SInt i) = Some i"
| "as_int _ = None"

fun py_eq :: "scalar \<Rightarrow> scalar \<Rightarrow> bool" where
  "py_eq SNone y = (y = SNone)"
| "py_eq (SStr s) y = (y = SStr s)"
| "py_eq x y = (as_int x \<noteq> None \<and> as_int x = as_int y)"

text \<open>Tuples are equal when they have the same length and equal components.\<close>

definition row_eq :: "scalar list \<Rightarrow> scalar list \<Rightarrow> bool" where
  "row_eq r s = list_all2 py_eq r s"

text \<open>
  Row \<open>i\<close> of \<open>rs\<close> is a first occurrence when no row before it equals it.
\<close>

definition first_occurrence :: "scalar list list \<Rightarrow> nat \<Rightarrow> bool" where
  "first_occurrence rs i = (\<not> list_ex (\<lambda>r. row_eq r (rs ! i)) (take i rs))"

text \<open>\<open>sep.join(xs)\<close>.\<close>

fun join :: "string \<Rightarrow> string list \<Rightarrow> string" where
  "join sep [] = []"
| "join sep [x] = x"
| "join sep (x # y # ys) = x @ sep @ join sep (y # ys)"

section \<open>rag.py: GraphRAG.execute_query\<close>

text \<open>
  \<open>key = tuple(item)\<close> followed by \<open>key not in seen\<close> hashes the tuple, which raises
  TypeError as soon as one component is unhashable. A tuple that hashes consists of
  scalars only, and is kept at that type.
\<close>

fun tuple_key :: "pyval list \<Rightarrow> py_error + scalar list" where
  "tuple_key [] = Inr []"
| "tuple_key (Unhashable # vs) = Inl TypeError"
| "tuple_key (Hashable v # vs) =
     (case tuple_key vs of Inl e \<Rightarrow> Inl e | Inr k \<Rightarrow> Inr (v # k))"

text \<open>
  The cursor loop of lines 89 to 96: \<open>seen\<close> is the set of keys met so far (membership by
  \<open>==\<close>), \<open>rows\<close> the rows appended so far.
\<close>

fun dedup_loop ::
  "pyval list list \<Rightarrow> scalar list list \<Rightarrow> scalar list list \<Rightarrow> py_error + scalar list list" where
  "dedup_loop [] seen rows = Inr rows"
| "dedup_loop (item # rest) seen rows =
     (case tuple_key item of
        Inl e \<Rightarrow> Inl e
      | Inr key \<Rightarrow>
          if \<not> list_ex (row_eq key) seen
          then dedup_loop rest (seen @ [key]) (rows @ [key])
          else dedup_loop rest seen rows)"

text \<open>\<open>str(r[0])\<close>: indexing an empty row raises IndexError.\<close>

fun str_first :: "scalar list \<Rightarrow> py_error + string" where
  "str_first [] = Inl IndexError"
| "str_first (v # vs) = Inr (pystr v)"

text \<open>A comprehension whose body can raise: the first exception ends it.\<close>

fun map_raise :: "('a \<Rightarrow> py_error + 'b) \<Rightarrow> 'a list \<Rightarrow> py_error + 'b list" where
  "map_raise f [] = Inr []"
| "map_raise f (x # xs) =
     (case f x of
        Inl e \<Rightarrow> Inl e
      | Inr y \<Rightarrow> (case map_raise f xs of Inl e \<Rightarrow> Inl e | Inr ys \<Rightarrow> Inr (y # ys)))"

text \<open>
  The generator of lines 107 to 109: one \<open>col: val\<close> per zipped pair whose value is not
  \<open>None\<close>, joined with \<open>" | "\<close>.
\<close>

definition row_pairs :: "string list \<Rightarrow> scalar list \<Rightarrow> string" where
  "row_pairs columns row =
     join '' | '' (map (\<lambda>(col, val). col @ '': '' @ pystr val)
                     (filter (\<lambda>(col, val). val \<noteq> SNone) (zip columns row)))"

text \<open>Lines 98 to 111: the three-way serialization of the deduplicated rows.\<close>

definition serialize :: "string list \<Rightarrow> scalar list list \<Rightarrow> py_error + string" where
  "serialize columns rows =
     (if rows = [] then Inr ''''
      else if length columns = 1 then
        (case map_raise str_first rows of Inl e \<Rightarrow> Inl e | Inr ss \<Rightarrow> Inr (join '', '' ss))
      else Inr (join [CHR 0x0A] (map (row_pairs columns) rows)))"

text \<open>What \<open>conn.execute\<close> returns: the column names and the rows of the cursor.\<close>

record query_response =
  column_names :: "string list"
  cursor_rows :: "pyval list list"

text \<open>\<open>types.Answer(question=..., answer=...)\<close>.\<close>

record answer =
  a_question :: string
  a_answer :: string

definition execute_query_on :: "string \<Rightarrow> query_response \<Rightarrow> py_error + answer" where
  "execute_query_on q response =
     (case dedup_loop (cursor_rows response) [] [] of
        Inl e \<Rightarrow> Inl e
      | Inr rows \<Rightarrow>
          (case serialize (column_names response) rows of
             Inl e \<Rightarrow> Inl e
           | Inr result_str \<Rightarrow> Inr \<lparr>a_question = q, a_answer = result_str\<rparr>))"

text \<open>\<open>conn.execute(cypher)\<close> is the backend: it raises or returns a response.\<close>

definition execute_query ::
  "(string \<Rightarrow> py_error + query_response) \<Rightarrow> string \<Rightarrow> string \<Rightarrow> py_error + answer" where
  "execute_query conn_execute q cypher =
     (case conn_execute cypher of
        Inl e \<Rightarrow> Inl e
      | Inr response \<Rightarrow> execute_query_on q response)"

section \<open>rag.py: GraphRAG.run\<close>

text \<open>
  The external collaborators of the pipeline. \<open>text2cypher\<close> is \<open>b.RAGText2Cypher\<close>: it
  raises, returns no object (\<open>None\<close>), or returns an object whose \<open>query\<close> field is the
  given text. \<open>conn_execute\<close> is \<open>conn.execute\<close>. \<open>answer_question\<close> is
  \<open>b.RAGAnswerQuestion\<close>, giving the \<open>answer\<close> field of the object it returns.
\<close>

record services =
  text2cypher :: "string \<Rightarrow> string \<Rightarrow> py_error + string option"
  conn_execute :: "string \<Rightarrow> py_error + query_response"
  answer_question :: "string \<Rightarrow> string \<Rightarrow> py_error + string"

text \<open>The calls made to the collaborators, in order, with their arguments.\<close>

datatype call =
    CallText2Cypher string string
  | CallExecute string
  | CallAnswerQuestion string string
  | CallJudge string

text \<open>The dict that \<open>run\<close> returns, with its keys \<open>question\<close>, \<open>cypher\<close> and \<open>response\<close>.\<close>

record rag_result =
  rr_question :: string
  rr_cypher :: string
  rr_response :: string

definition run :: "services \<Rightarrow> string \<Rightarrow> string \<Rightarrow> call list \<times> (py_error + rag_result)" where
  "run sv baml_schema q =
     (case text2cypher sv baml_schema q of
        Inl e \<Rightarrow> ([CallText2Cypher baml_schema q], Inl e)
      | Inr None \<Rightarrow>
          ([CallText2Cypher baml_schema q],
           Inr \<lparr>rr_question = q, rr_cypher = ''N/A'', rr_response = ''N/A''\<rparr>)
      | Inr (Some query) \<Rightarrow>
          (case execute_query (conn_execute sv) q query of
             Inl e \<Rightarrow> ([CallText2Cypher baml_schema q, CallExecute query], Inl e)
           | Inr query_response \<Rightarrow>
               (case answer_question sv q (a_answer query_response) of
                  Inl e \<Rightarrow>
                    ([CallText2Cypher baml_schema q, CallExecute query,
                      CallAnswerQuestion q (a_answer query_response)], Inl e)
                | Inr r \<Rightarrow>
                    ([CallText2Cypher baml_schema q, CallExecute query,
                      CallAnswerQuestion q (a_answer query_response)],
                     Inr \<lparr>rr_question = q, rr_cypher = query, rr_response = r\<rparr>))))"

section \<open>rag.py: get_schema_dict and get_schema_baml\<close>

text \<open>
  The connection as the introspection sees it: the node table names, the relationship
  tables (dicts with the keys \<open>name\<close>, \<open>src\<close> and \<open>dst\<close>), and \<open>CALL TABLE_INFO\<close> for a
  table name, which raises or returns rows of which columns 1 and 2 (property name and
  declared type) are read.
\<close>

record rel_table =
  rel_name :: string
  rel_src :: string
  rel_dst :: string

record connection =
  node_table_names :: "string list"
  rel_table_names :: "rel_table list"
  table_info :: "string \<Rightarrow> py_error + (string \<times> string) list"

record property =
  p_name :: string
  p_type :: string

record node_schema =
  n_label :: string
  n_properties :: "property list"

record edge_schema =
  e_label :: string
  e_src :: string
  e_dst :: string
  e_properties :: "property list"

record schema =
  nodes :: "node_schema list"
  edges :: "edge_schema list"

text \<open>
  The cursor loop over a table's rows followed by the sort on \<open>(name, type)\<close>. Python
  compares strings by code point and tuples lexicographically, and its sort is stable,
  as \<open>sort_key\<close> is.
\<close>

definition table_properties :: "connection \<Rightarrow> string \<Rightarrow> py_error + property list" where
  "table_properties conn t =
     (case table_info conn t of
        Inl e \<Rightarrow> Inl e
      | Inr rows \<Rightarrow>
          Inr (sort_key (\<lambda>prop. (p_name prop, p_type prop))
                 (map (\<lambda>(n, ty). \<lparr>p_name = n, p_type = ty\<rparr>) rows)))"

definition node_entry :: "connection \<Rightarrow> string \<Rightarrow> py_error + node_schema" where
  "node_entry conn node =
     (case table_properties conn node of
        Inl e \<Rightarrow> Inl e
      | Inr ps \<Rightarrow> Inr \<lparr>n_label = node, n_properties = ps\<rparr>)"

definition edge_entry :: "connection \<Rightarrow> rel_table \<Rightarrow> py_error + edge_schema" where
  "edge_entry conn rel =
     (case table_properties conn (rel_name rel) of
        Inl e \<Rightarrow> Inl e
      | Inr ps \<Rightarrow>
          Inr \<lparr>e_label = rel_name rel, e_src = rel_src rel, e_dst = rel_dst rel,
               e_properties = ps\<rparr>)"

definition get_schema_dict :: "connection \<Rightarrow> py_error + schema" where
  "get_schema_dict conn =
     (let nodes = sort (node_table_names conn);
          relationships =
            sort_key (\<lambda>rel. (rel_src rel, rel_name rel, rel_dst rel)) (rel_table_names conn)
      in case map_raise (node_entry conn) nodes of
           Inl e \<Rightarrow> Inl e
         | Inr ns \<Rightarrow>
             (case map_raise (edge_entry conn) relationships of
                Inl e \<Rightarrow> Inl e
              | Inr es \<Rightarrow> Inr \<lparr>nodes = ns, edges = es\<rparr>))"

text \<open>\<open>str.lower()\<close> on code points below 256.\<close>

definition lower_char :: "char \<Rightarrow> char" where
  "lower_char c =
     (let n = (of_char c :: nat)
      in if (65 \<le> n \<and> n \<le> 90) \<or> (192 \<le> n \<and> n \<le> 222 \<and> n \<noteq> 215)
         then char_of (n + 32) else c)"

definition edge_line :: "edge_schema \<Rightarrow> string" where
  "edge_line edge = ''(:'' @ e_src edge @ '') -[:'' @ e_label edge @ '']-> (:'' @ e_dst edge @ '')''"

definition prop_line :: "property \<Rightarrow> string" where
  "prop_line prop = ''    - '' @ p_name prop @ '': '' @ map lower_char (p_type prop)"

definition node_lines :: "node_schema \<Rightarrow> string list" where
  "node_lines node = (''  - '' @ n_label node) # map prop_line (n_properties node)"

definition edge_prop_lines :: "edge_schema \<Rightarrow> string list" where
  "edge_prop_lines edge =
     (if e_properties edge \<noteq> []
      then (''- '' @ e_label edge) # map prop_line (e_properties edge)
      else [])"

definition schema_lines :: "schema \<Rightarrow> string list" where
  "schema_lines sch =
     [''ALWAYS RESPECT THE EDGE DIRECTIONS:'' @ [CHR 0x0A] @ ''---'']
     @ map edge_line (edges sch)
     @ [''---'']
     @ [[CHR 0x0A] @ ''Node properties:'']
     @ concat (map node_lines (nodes sch))
     @ [[CHR 0x0A] @ ''Edge properties:'']
     @ concat (map edge_prop_lines (edges sch))"

definition get_schema_baml :: "connection \<Rightarrow> py_error + string" where
  "get_schema_baml conn =
     (case get_schema_dict conn of
        Inl e \<Rightarrow> Inl e
      | Inr sch \<Rightarrow> Inr (join [CHR 0x0A] (schema_lines sch)))"

section \<open>evaluate.py: load_questions\<close>

text \<open>
  \<open>str.isspace\<close> on code points below 256, and \<open>str.strip()\<close>.
\<close>

definition is_space :: "char \<Rightarrow> bool" where
  "is_space c = ((of_char c :: nat) \<in> set [9, 10, 11, 12, 13, 28, 29, 30, 31, 32, 133, 160])"

definition strip :: "string \<Rightarrow> string" where
  "strip s = rev (dropWhile is_space (rev (dropWhile is_space s)))"

text \<open>
  A row of \<open>csv.DictReader\<close>: a dict from the header's field names to the row's values,
  where a field the row is too short for holds \<open>None\<close>. The reader yields one row per
  record of the file after the header; a line without any field is not a row and is not
  counted.
\<close>

type_synonym csv_row = "string \<rightharpoonup> string option"

text \<open>\<open>row.get(k, "").strip()\<close>: \<open>None\<close> has no \<open>strip\<close>.\<close>

definition get_stripped :: "csv_row \<Rightarrow> string \<Rightarrow> py_error + string" where
  "get_stripped row k =
     (case row k of
        None \<Rightarrow> Inr (strip '''')
      | Some None \<Rightarrow> Inl AttributeError
      | Some (Some s) \<Rightarrow> Inr (strip s))"

record qa =
  q_id :: nat
  q_question :: string
  q_baseline :: string

text \<open>The loop over \<open>enumerate(reader, start=1)\<close>, with \<open>i\<close> the number of the next row.\<close>

fun load_rows :: "nat \<Rightarrow> csv_row list \<Rightarrow> py_error + qa list" where
  "load_rows i [] = Inr []"
| "load_rows i (row # rows) =
     (case get_stripped row ''Question'' of
        Inl e \<Rightarrow> Inl e
      | Inr question \<Rightarrow>
          (case get_stripped row ''Baseline answer'' of
             Inl e \<Rightarrow> Inl e
           | Inr baseline \<Rightarrow>
               (case load_rows (Suc i) rows of
                  Inl e \<Rightarrow> Inl e
                | Inr questions \<Rightarrow>
                    Inr (if question \<noteq> []
                         then \<lparr>q_id = i, q_question = question, q_baseline = baseline\<rparr> # questions
                         else questions))))"

definition load_questions :: "csv_row list \<Rightarrow> py_error + qa list" where
  "load_questions rows = load_rows 1 rows"

text \<open>The stripped question of a row, empty when the row has none.\<close>

definition row_question :: "csv_row \<Rightarrow> string" where
  "row_question row = (case get_stripped row ''Question'' of Inl e \<Rightarrow> [] | Inr s \<Rightarrow> s)"

section \<open>evaluate.py: judge_response\<close>

text \<open>
  What \<open>json.loads\<close> returns. A \<open>JObject\<close> holds the items of the parsed dict, each key
  once. Numbers with a fraction or an exponent are outside this model.
\<close>

datatype json =
    JNull
  | JBool bool
  | JInt int
  | JStr string
  | JArray "json list"
  | JObject "(string \<times> json) list"

text \<open>
  \<open>int(s)\<close> for a string: surrounding whitespace is stripped, a sign may lead, and the
  rest is decimal digits, where single underscores may stand between digits. Anything
  else raises ValueError.
\<close>

definition digit_val :: "char \<Rightarrow> nat option" where
  "digit_val c =
     (let n = (of_char c :: nat) in if 48 \<le> n \<and> n \<le> 57 then Some (n - 48) else None)"

fun parse_digits :: "string \<Rightarrow> nat \<Rightarrow> bool \<Rightarrow> nat option" where
  "parse_digits [] acc prev_digit = (if prev_digit then Some acc else None)"
| "parse_digits (c # cs) acc prev_digit =
     (if c = CHR ''_'' then
        (if prev_digit \<and> cs \<noteq> [] then parse_digits cs acc False else None)
      else
        (case digit_val c of
           None \<Rightarrow> None
         | Some d \<Rightarrow> parse_digits cs (acc * 10 + d) True))"

text \<open>
  The whitespace that \<open>int\<close> skips around the number: tab, line feed, vertical tab,
  form feed, carriage return and space, and the two non-ASCII spaces below 256 (next
  line, no-break space), which \<open>int\<close> first turns into spaces. The separators 0x1C to
  0x1F are whitespace for \<open>strip\<close> but not here.
\<close>

definition is_int_space :: "char \<Rightarrow> bool" where
  "is_int_space c = ((of_char c :: nat) \<in> set [9, 10, 11, 12, 13, 32, 133, 160])"

text \<open>The default of \<open>sys.int_max_str_digits\<close>: more digits raise ValueError.\<close>

definition int_max_str_digits :: nat where
  "int_max_str_digits = 4300"

definition int_of_str :: "string \<Rightarrow> py_error + int" where
  "int_of_str s =
     (let t = rev (dropWhile is_int_space (rev (dropWhile is_int_space s)));
          parsed =
            (case t of
               c # r \<Rightarrow>
                 if c = CHR ''-'' then map_option (\<lambda>n. - int n) (parse_digits r 0 False)
                 else if c = CHR ''+'' then map_option int (parse_digits r 0 False)
                 else map_option int (parse_digits t 0 False)
             | [] \<Rightarrow> None)
      in if int_max_str_digits < length (filter (\<lambda>c. digit_val c \<noteq> None) t)
         then Inl ValueError
         else (case parsed of None \<Rightarrow> Inl ValueError | Some i \<Rightarrow> Inr i))"

text \<open>\<open>int(v)\<close> for a parsed JSON value.\<close>

fun py_int :: "json \<Rightarrow> py_error + int" where
  "py_int (JInt i) = Inr i"
| "py_int (JBool b) = Inr (if b then 1 else 0)"
| "py_int (JStr s) = int_of_str s"
| "py_int JNull = Inl TypeError"
| "py_int (JArray xs) = Inl TypeError"
| "py_int (JObject kvs) = Inl TypeError"

text \<open>
  \<open>parsed["score"]\<close>: a dict without the key raises KeyError; a list, a string, a
  number, a bool and \<open>None\<close> do not take a string subscript and raise TypeError.
\<close>

fun subscript_score :: "json \<Rightarrow> py_error + json" where
  "subscript_score (JObject kvs) =
     (case map_of kvs ''score'' of None \<Rightarrow> Inl KeyError | Some v \<Rightarrow> Inr v)"
| "subscript_score v = Inl TypeError"

text \<open>\<open>parsed.get("reasoning", "")\<close>, reached only when \<open>parsed\<close> is a dict.\<close>

fun get_reasoning :: "json \<Rightarrow> json" where
  "get_reasoning (JObject kvs) =
     (case map_of kvs ''reasoning'' of None \<Rightarrow> JStr '''' | Some v \<Rightarrow> v)"
| "get_reasoning v = JStr ''''"

text \<open>
  The body of the \<open>try\<close> of lines 94 to 97; \<open>loaded\<close> is the outcome of
  \<open>json.loads(result.text)\<close>, \<open>None\<close> when it raises JSONDecodeError.
\<close>

definition judge_try :: "json option \<Rightarrow> py_error + int \<times> json" where
  "judge_try loaded =
     (case loaded of
        None \<Rightarrow> Inl JSONDecodeError
      | Some parsed \<Rightarrow>
          (case subscript_score parsed of
             Inl e \<Rightarrow> Inl e
           | Inr v \<Rightarrow>
               (case py_int v of
                  Inl e \<Rightarrow> Inl e
                | Inr score \<Rightarrow> Inr (score, get_reasoning parsed))))"

text \<open>The exceptions that \<open>except (json.JSONDecodeError, KeyError, ValueError)\<close> catches.\<close>

fun caught :: "py_error \<Rightarrow> bool" where
  "caught JSONDecodeError = True"
| "caught KeyError = True"
| "caught ValueError = True"
| "caught e = False"

text \<open>
  \<open>ch.isdigit()\<close> on code points below 256: the ten decimal digits and the superscript
  digits two, three and one. \<open>int(ch)\<close> accepts the decimal digits only and raises
  ValueError on a superscript digit.
\<close>

definition isdigit :: "char \<Rightarrow> bool" where
  "isdigit ch =
     (let n = (of_char ch :: nat) in (48 \<le> n \<and> n \<le> 57) \<or> n = 178 \<or> n = 179 \<or> n = 185)"

definition int_of_char :: "char \<Rightarrow> py_error + int" where
  "int_of_char ch = (case digit_val ch of None \<Rightarrow> Inl ValueError | Some d \<Rightarrow> Inr (int d))"

text \<open>
  The handler of lines 99 to 102: the loop over the characters of the reply, \<open>text\<close>
  being the whole reply.
\<close>

fun scan_digits :: "string \<Rightarrow> string \<Rightarrow> py_error + int \<times> json" where
  "scan_digits [] text = Inr (1, JStr (''Could not parse judge response: '' @ text))"
| "scan_digits (ch # rest) text =
     (if isdigit ch then
        (case int_of_char ch of
           Inl e \<Rightarrow> Inl e
         | Inr n \<Rightarrow> if 1 \<le> n \<and> n \<le> 5 then Inr (n, JStr text) else scan_digits rest text)
      else scan_digits rest text)"

definition parse_judge_reply :: "json option \<Rightarrow> string \<Rightarrow> py_error + int \<times> json" where
  "parse_judge_reply loaded text =
     (case judge_try loaded of
        Inr r \<Rightarrow> Inr r
      | Inl e \<Rightarrow> if caught e then scan_digits text text else Inl e)"

definition judge_prompt :: "string \<Rightarrow> string \<Rightarrow> string \<Rightarrow> string" where
  \<open>judge_prompt q baseline response =
     join [CHR 0x0A]
       [''You are evaluating a RAG system's answer against a baseline (expected) answer.'',
        '''',
        ''Score the system's answer on a scale of 1-5:'',
        ''1 = no_answer: The system returned nothing useful or said it doesn't know'',
        ''2 = wrong: The answer is factually incorrect or completely off-topic'',
        ''3 = partial: The answer addresses the question but is missing key information from the baseline'',
        ''4 = acceptable: The answer is mostly correct and useful, minor gaps acceptable'',
        ''5 = correct: The answer is accurate and covers the key points in the baseline'',
        '''',
        ''QUESTION: '' @ q,
        '''',
        ''BASELINE ANSWER: '' @ baseline,
        '''',
        ''SYSTEM ANSWER: '' @ response,
        '''',
        ''Respond with JSON only: {"score": <1-5>, "reasoning": "<one sentence>"}'']\<close>

text \<open>
  The harness's surroundings: the pipeline's collaborators; \<open>judge_generate\<close>, which is
  \<open>_get_judge_client()\<close> and \<open>generate_content\<close> and gives the reply's \<open>text\<close> or raises;
  \<open>json_loads\<close>, the standard library's parser, \<open>None\<close> for JSONDecodeError; and
  \<open>format_exc\<close>, the text of \<open>traceback.format_exc()\<close> for a caught exception.
\<close>

record harness =
  pipeline :: services
  judge_generate :: "string \<Rightarrow> py_error + string"
  json_loads :: "string \<Rightarrow> json option"
  format_exc :: "py_error \<Rightarrow> string"

definition judge_response ::
  "harness \<Rightarrow> string \<Rightarrow> string \<Rightarrow> string \<Rightarrow> py_error + int \<times> json" where
  "judge_response h q baseline response =
     (case judge_generate h (judge_prompt q baseline response) of
        Inl e \<Rightarrow> Inl e
      | Inr text \<Rightarrow> parse_judge_reply (json_loads h text) text)"

section \<open>evaluate.py: run_evaluation\<close>

definition SCORE_LABELS :: "(int \<times> string) list" where
  "SCORE_LABELS =
     [(1, ''no_answer''), (2, ''wrong''), (3, ''partial''), (4, ''acceptable''), (5, ''correct'')]"

text \<open>\<open>SCORE_LABELS.get(score, "unknown")\<close>.\<close>

definition score_label :: "int \<Rightarrow> string" where
  "score_label score = (case map_of SCORE_LABELS score of None \<Rightarrow> ''unknown'' | Some l \<Rightarrow> l)"

text \<open>\<open>str.splitlines()\<close> on code points below 256; \<open>cur\<close> is the line being read.\<close>

definition is_linebreak :: "char \<Rightarrow> bool" where
  "is_linebreak c = ((of_char c :: nat) \<in> set [10, 11, 12, 13, 28, 29, 30, 133])"

fun splitlines_from :: "string \<Rightarrow> string \<Rightarrow> string list" where
  "splitlines_from cur [] = (if cur = [] then [] else [cur])"
| "splitlines_from cur [c] = (if is_linebreak c then [cur] else [cur @ [c]])"
| "splitlines_from cur (c # d # cs) =
     (if c = CHR 0x0D \<and> d = CHR 0x0A then cur # splitlines_from [] cs
      else if is_linebreak c then cur # splitlines_from [] (d # cs)
      else splitlines_from (cur @ [c]) (d # cs))"

definition splitlines :: "string \<Rightarrow> string list" where
  "splitlines s = splitlines_from [] s"

record eval_record =
  rec_id :: nat
  rec_question :: string
  rec_baseline :: string
  rec_cypher :: string
  rec_response :: string
  rec_score :: int
  rec_label :: string
  rec_reasoning :: json
  rec_error :: "string option"

text \<open>
  Lines 119 to 127: the pipeline call inside \<open>try\<close>. The result is the calls made and
  \<open>(response, cypher, error)\<close>.
\<close>

definition try_pipeline ::
  "harness \<Rightarrow> string \<Rightarrow> string \<Rightarrow> call list \<times> string \<times> string \<times> string option" where
  "try_pipeline h baml_schema q =
     (case run (pipeline h) baml_schema q of
        (calls, Inr rag_result) \<Rightarrow> (calls, rr_response rag_result, rr_cypher rag_result, None)
      | (calls, Inl e) \<Rightarrow> (calls, '''', '''', Some (format_exc h e)))"

text \<open>\<open>if error:\<close> holds for a string that is not empty.\<close>

fun truthy :: "string option \<Rightarrow> bool" where
  "truthy None = False"
| "truthy (Some s) = (s \<noteq> [])"

text \<open>
  Lines 129 to 134: the score and the reasoning, with the call to the judge when it is
  made. \<open>error.splitlines()[-1]\<close> raises IndexError on an empty list.
\<close>

definition score_response ::
  "harness \<Rightarrow> string \<Rightarrow> string \<Rightarrow> string \<Rightarrow> string option
     \<Rightarrow> call list \<times> (py_error + int \<times> json)" where
  "score_response h q baseline response error =
     (if truthy error then
        (case splitlines (case error of Some tb \<Rightarrow> tb | None \<Rightarrow> []) of
           [] \<Rightarrow> ([], Inl IndexError)
         | l # ls \<Rightarrow> ([], Inr (1, JStr (''Exception: '' @ last (l # ls)))))
      else if response = [] \<or> response = ''N/A'' then
        ([], Inr (1, JStr ''No response returned''))
      else
        ([CallJudge (judge_prompt q baseline response)],
         judge_response h q baseline response))"

text \<open>One turn of the loop of lines 114 to 152: the calls made and the record appended.\<close>

definition evaluate_question ::
  "harness \<Rightarrow> string \<Rightarrow> qa \<Rightarrow> call list \<times> (py_error + eval_record)" where
  "evaluate_question h baml_schema q =
     (case try_pipeline h baml_schema (q_question q) of
        (calls, response, cypher, error) \<Rightarrow>
          (case score_response h (q_question q) (q_baseline q) response error of
             (jcalls, Inl e) \<Rightarrow> (calls @ jcalls, Inl e)
           | (jcalls, Inr (score, reasoning)) \<Rightarrow>
               (calls @ jcalls,
                Inr \<lparr>rec_id = q_id q, rec_question = q_question q,
                     rec_baseline = q_baseline q, rec_cypher = cypher,
                     rec_response = response, rec_score = score,
                     rec_label = score_label score, rec_reasoning = reasoning,
                     rec_error = error\<rparr>)))"

text \<open>
  The loop: an exception that leaves a turn ends the run, and the records made so far
  are not returned.
\<close>

fun evaluation_loop ::
  "harness \<Rightarrow> string \<Rightarrow> qa list \<Rightarrow> call list \<times> (py_error + eval_record list)" where
  "evaluation_loop h baml_schema [] = ([], Inr [])"
| "evaluation_loop h baml_schema (q # qs) =
     (case evaluate_question h baml_schema q of
        (calls, Inl e) \<Rightarrow> (calls, Inl e)
      | (calls, Inr r) \<Rightarrow>
          (case evaluation_loop h baml_schema qs of
             (calls', Inl e) \<Rightarrow> (calls @ calls', Inl e)
           | (calls', Inr rs) \<Rightarrow> (calls @ calls', Inr (r # rs))))"

text \<open>
  Lines 157 to 159 and 164 to 166: the count per label, and the rows of the summary as
  (score, label, count).
\<close>

definition label_counts :: "eval_record list \<Rightarrow> (string \<rightharpoonup> nat)" where
  "label_counts results =
     fold (\<lambda>r m. m(rec_label r \<mapsto> (case m (rec_label r) of None \<Rightarrow> 0 | Some c \<Rightarrow> c) + 1))
       results (map_of (map (\<lambda>(score, label). (label, 0)) SCORE_LABELS))"

definition summary_rows :: "eval_record list \<Rightarrow> (int \<times> string \<times> nat) list" where
  "summary_rows results =
     map (\<lambda>score_val.
            (score_val, score_label score_val,
             (case label_counts results (score_label score_val) of None \<Rightarrow> 0 | Some c \<Rightarrow> c)))
       (sort (map fst SCORE_LABELS))"

text \<open>
  \<open>run_evaluation\<close>: the questions are loaded, the pipeline is constructed (which renders
  the schema once), and the loop runs. \<open>rows\<close> is the content of the dataset file.
\<close>

definition run_evaluation ::
  "harness \<Rightarrow> connection \<Rightarrow> csv_row list \<Rightarrow> call list \<times> (py_error + eval_record list)" where
  "run_evaluation h conn rows =
     (case load_questions rows of
        Inl e \<Rightarrow> ([], Inl e)
      | Inr questions \<Rightarrow>
          (case get_schema_baml conn of
             Inl e \<Rightarrow> ([], Inl e)
           | Inr baml_schema \<Rightarrow> evaluation_loop h baml_schema questions))"

section \<open>Example surroundings\<close>

text \<open>
  Stand-ins for the external collaborators, used to run the definitions above on concrete
  inputs: a pipeline that answers, one whose query execution fails, and one whose
  generation service returns no query.
\<close>

definition keynote_pipeline :: services where
  "keynote_pipeline =
     \<lparr>text2cypher = (\<lambda>baml_schema q. Inr (Some ''MATCH (t:Talk) RETURN t.speaker'')),
      conn_execute = (\<lambda>cypher. Inr \<lparr>column_names = [''t.speaker''],
                                    cursor_rows = [[Hashable (SStr ''Jane Doe'')]]\<rparr>),
      answer_question = (\<lambda>q context. Inr ''Jane Doe gave the keynote.'')\<rparr>"

definition failing_pipeline :: services where
  "failing_pipeline =
     \<lparr>text2cypher = (\<lambda>baml_schema q. Inr (Some ''MATCH (t:Talk) RETURN t.speakr'')),
      conn_execute = (\<lambda>cypher. Inl (ServiceError ''Binder exception: no property speakr'')),
      answer_question = (\<lambda>q context. Inr ''Jane Doe gave the keynote.'')\<rparr>"

definition no_query_pipeline :: services where
  "no_query_pipeline =
     \<lparr>text2cypher = (\<lambda>baml_schema q. Inr None),
      conn_execute = (\<lambda>cypher. Inl (ServiceError ''not reached'')),
      answer_question = (\<lambda>q context. Inl (ServiceError ''not reached''))\<rparr>"

text \<open>
  A harness whose judge service gives the same outcome for every prompt: \<open>reply\<close> is the
  reply text or the exception raised, \<open>loaded\<close> what \<open>json.loads\<close> makes of the text.
\<close>

definition example_harness :: "services \<Rightarrow> py_error + string \<Rightarrow> json option \<Rightarrow> harness" where
  "example_harness sv reply loaded =
     \<lparr>pipeline = sv,
      judge_generate = (\<lambda>prompt. reply),
      json_loads = (\<lambda>text. loaded),
      format_exc = (\<lambda>e. ''Traceback (most recent call last):'' @ [CHR 0x0A]
                          @ ''RuntimeError: query failed'' @ [CHR 0x0A])\<rparr>"

definition keynote_question :: qa where
  "keynote_question =
     \<lparr>q_id = 1, q_question = ''Who gave the keynote?'', q_baseline = ''Jane Doe''\<rparr>"

definition venue_question :: qa where
  "venue_question =
     \<lparr>q_id = 2, q_question = ''Where was the event held?'', q_baseline = ''London''\<rparr>"

text \<open>One schema as two connections that enumerate it in different orders.\<close>

definition conference_conn :: connection where
  "conference_conn =
     \<lparr>node_table_names = [''Talk'', ''Speaker''],
      rel_table_names =
        [\<lparr>rel_name = ''TAGGED'', rel_src = ''Talk'', rel_dst = ''Tag''\<rparr>,
         \<lparr>rel_name = ''GAVE'', rel_src = ''Speaker'', rel_dst = ''Talk''\<rparr>],
      table_info = (\<lambda>t. if t = ''Talk'' then Inr [(''title'', ''STRING''), (''id'', ''INT64'')]
                       else if t = ''Speaker'' then Inr [(''name'', ''STRING'')]
                       else if t = ''GAVE'' then Inr [(''year'', ''INT64'')]
                       else Inr [])\<rparr>"

definition conference_conn_reordered :: connection where
  "conference_conn_reordered =
     \<lparr>node_table_names = [''Speaker'', ''Talk''],
      rel_table_names =
        [\<lparr>rel_name = ''GAVE'', rel_src = ''Speaker'', rel_dst = ''Talk''\<rparr>,
         \<lparr>rel_name = ''TAGGED'', rel_src = ''Talk'', rel_dst = ''Tag''\<rparr>],
      table_info = (\<lambda>t. if t = ''Talk'' then Inr [(''id'', ''INT64''), (''title'', ''STRING'')]
                       else if t = ''Speaker'' then Inr [(''name'', ''STRING'')]
                       else if t = ''GAVE'' then Inr [(''year'', ''INT64'')]
                       else Inr [])\<rparr>"

text \<open>
  Two datasets with a blank question: in the first row, and between two questions.
\<close>

definition blank_then_two_questions :: "csv_row list" where
  "blank_then_two_questions =
     [[''Question'' \<mapsto> Some ''  '', ''Baseline answer'' \<mapsto> Some ''none''],
      [''Question'' \<mapsto> Some ''Who gave the keynote?'', ''Baseline answer'' \<mapsto> Some ''Jane Doe''],
      [''Question'' \<mapsto> Some ''Where was the event held?'', ''Baseline answer'' \<mapsto> Some ''London'']]"

definition question_blank_question :: "csv_row list" where
  "question_blank_question =
     [[''Question'' \<mapsto> Some ''Who gave the keynote?'', ''Baseline answer'' \<mapsto> Some ''Jane Doe''],
      [''Question'' \<mapsto> Some ''  '', ''Baseline answer'' \<mapsto> Some ''none''],
      [''Question'' \<mapsto> Some ''Where was the event held?'', ''Baseline answer'' \<mapsto> Some ''London'']]"

section \<open>Properties of execute_query\<close>

subsection \<open>Equality of rows\<close>

lemma py_eq_refl: "py_eq a a"
  by (cases a) auto

lemma py_eq_sym: "py_eq a b \<Longrightarrow> py_eq b a"
  by (cases a; cases b; auto)

lemma py_eq_trans: "py_eq a b \<Longrightarrow> py_eq b c \<Longrightarrow> py_eq a c"
  by (cases a; cases b; cases c; auto)

lemma row_eq_refl: "row_eq r r"
  unfolding row_eq_def by (simp add: list_all2_refl py_eq_refl)

lemma row_eq_sym: "row_eq r s \<Longrightarrow> row_eq s r"
  unfolding row_eq_def by (simp add: list_all2_conv_all_nth py_eq_sym)

lemma row_eq_trans: "row_eq r s \<Longrightarrow> row_eq s t \<Longrightarrow> row_eq r t"
  unfolding row_eq_def
  by (rule list_all2_trans[of py_eq py_eq py_eq]) (auto intro: py_eq_trans)

subsection \<open>The cursor loop\<close>

lemma tuple_key_Hashable: "tuple_key (map Hashable r) = Inr r"
  by (induction r) auto

text \<open>One more row at the end of the cursor: it is appended unless an equal key was seen.\<close>

lemma dedup_loop_snoc:
  "\<exists>out. dedup_loop (map (map Hashable) xs) s s = Inr out \<and>
         dedup_loop (map (map Hashable) (xs @ [x])) s s =
           Inr (if list_ex (row_eq x) out then out else out @ [x])"
  by (induction xs arbitrary: s) (auto simp: tuple_key_Hashable)

text \<open>The rows kept represent every row read: a key is among them iff it was read.\<close>

lemma dedup_loop_seen:
  "dedup_loop (map (map Hashable) xs) [] [] = Inr out \<Longrightarrow>
     list_ex (row_eq x) out \<longleftrightarrow> (\<exists>r\<in>set xs. row_eq r x)"
proof (induction xs arbitrary: out x rule: rev_induct)
  case Nil
  then show ?case by simp
next
  case (snoc y ys)
  obtain o1 where o1: "dedup_loop (map (map Hashable) ys) [] [] = Inr o1"
    and o2: "dedup_loop (map (map Hashable) (ys @ [y])) [] [] =
           Inr (if list_ex (row_eq y) o1 then o1 else o1 @ [y])"
    using dedup_loop_snoc[of ys "[]" y] by blast
  have ih: "list_ex (row_eq z) o1 \<longleftrightarrow> (\<exists>r\<in>set ys. row_eq r z)" for z
    using snoc.IH[OF o1] .
  have out: "out = (if list_ex (row_eq y) o1 then o1 else o1 @ [y])"
    using o2 snoc.prems by simp
  show ?case
  proof (cases "list_ex (row_eq y) o1")
    case True
    then obtain r where r: "r \<in> set ys" "row_eq r y" using ih by blast
    have "row_eq y x \<Longrightarrow> row_eq r x" using r row_eq_trans by blast
    moreover have "row_eq x y \<Longrightarrow> row_eq x r" using r row_eq_trans row_eq_sym by blast
    ultimately show ?thesis using True out ih[of x] r
      by (auto simp: list_ex_iff dest: row_eq_sym)
  next
    case False
    then show ?thesis using out ih[of x]
      by (auto simp: list_ex_iff dest: row_eq_sym)
  qed
qed

lemma first_occurrence_append:
  "i < length xs \<Longrightarrow> first_occurrence (xs @ [x]) i = first_occurrence xs i"
  by (simp add: first_occurrence_def nth_append)

lemma dedup_loop_first_occurrences:
  "dedup_loop (map (map Hashable) rs) [] [] =
     Inr (map (\<lambda>i. rs ! i) (filter (first_occurrence rs) [0..<length rs]))"
proof (induction rs rule: rev_induct)
  case Nil
  then show ?case by simp
next
  case (snoc x xs)
  let ?out = "map (\<lambda>i. xs ! i) (filter (first_occurrence xs) [0..<length xs])"
  have o2: "dedup_loop (map (map Hashable) (xs @ [x])) [] [] =
           Inr (if list_ex (row_eq x) ?out then ?out else ?out @ [x])"
    using dedup_loop_snoc[of xs "[]" x] snoc.IH by simp
  have seen: "list_ex (row_eq x) ?out \<longleftrightarrow> (\<exists>r\<in>set xs. row_eq r x)"
    using dedup_loop_seen[OF snoc.IH] .
  have f1: "filter (first_occurrence (xs @ [x])) [0..<length xs] =
            filter (first_occurrence xs) [0..<length xs]"
    by (rule filter_cong) (auto simp: first_occurrence_append)
  have m1: "map (\<lambda>i. (xs @ [x]) ! i) (filter (first_occurrence xs) [0..<length xs]) = ?out"
    by (rule map_cong) (auto simp: nth_append)
  have last: "first_occurrence (xs @ [x]) (length xs) \<longleftrightarrow> \<not> (\<exists>r\<in>set xs. row_eq r x)"
    by (simp add: first_occurrence_def list_ex_iff)
  show ?case
    using o2 seen last by (simp add: f1 m1)
qed

subsection \<open>The serialization\<close>

lemmas str_int_eval = str_int_def str_nat.simps digit_char_def

lemma map_raise_str_first:
  "\<forall>r\<in>set rows. r \<noteq> [] \<Longrightarrow> map_raise str_first rows = Inr (map (\<lambda>r. pystr (hd r)) rows)"
proof (induction rows)
  case Nil
  then show ?case by simp
next
  case (Cons r rows)
  then show ?case by (cases r) auto
qed

lemma execute_query_on_no_rows:
  "dedup_loop (cursor_rows resp) [] [] = Inr [] \<Longrightarrow>
     execute_query_on q resp = Inr \<lparr>a_question = q, a_answer = ''''\<rparr>"
  by (simp add: execute_query_on_def serialize_def)

lemma execute_query_on_one_column:
  assumes "dedup_loop (cursor_rows resp) [] [] = Inr rows"
    and "rows \<noteq> []" and "length (column_names resp) = 1" and "\<forall>r\<in>set rows. r \<noteq> []"
  shows "execute_query_on q resp =
     Inr \<lparr>a_question = q, a_answer = join '', '' (map (\<lambda>r. pystr (hd r)) rows)\<rparr>"
  using assms by (simp add: execute_query_on_def serialize_def map_raise_str_first)

lemma execute_query_on_more_columns:
  assumes "dedup_loop (cursor_rows resp) [] [] = Inr rows"
    and "rows \<noteq> []" and "1 < length (column_names resp)"
  shows "execute_query_on q resp =
     Inr \<lparr>a_question = q,
          a_answer = join [CHR 0x0A]
            (map (\<lambda>row. join '' | ''
                    (map (\<lambda>(col, val). col @ '': '' @ pystr val)
                       (filter (\<lambda>(col, val). val \<noteq> SNone) (zip (column_names resp) row))))
               rows)\<rparr>"
proof -
  have rp: "row_pairs (column_names resp) =
      (\<lambda>row. join '' | ''
                (map (\<lambda>(col, val). col @ '': '' @ pystr val)
                   (filter (\<lambda>(col, val). val \<noteq> SNone) (zip (column_names resp) row))))"
    by (rule ext) (simp add: row_pairs_def)
  show ?thesis
    using assms by (simp add: execute_query_on_def serialize_def rp)
qed

lemma row_pairs_drops_None:
  "length cs1 = length vs1 \<Longrightarrow>
     row_pairs (cs1 @ c # cs2) (vs1 @ SNone # vs2) = row_pairs (cs1 @ cs2) (vs1 @ vs2)"
  by (simp add: row_pairs_def)

text \<open>
  C3. execute_query serializes the deduplicated rows in three ways: no rows give the
  empty string; with exactly one column the first (only) value of each row is rendered
  and the renderings are joined with a comma and a space; with more than one column
  each row gives its \<open>col: value\<close> pairs, without the pairs whose value is \<open>None\<close>, joined
  with \<open>" | "\<close>, and the rows are joined with a newline.
\<close>

theorem execute_query_serialization:
  assumes "dedup_loop (cursor_rows resp) [] [] = Inr rows"
  shows "(rows = [] \<longrightarrow> execute_query_on q resp = Inr \<lparr>a_question = q, a_answer = ''''\<rparr>) \<and>
    (rows \<noteq> [] \<and> length (column_names resp) = 1 \<and> (\<forall>r\<in>set rows. r \<noteq> []) \<longrightarrow>
       execute_query_on q resp =
         Inr \<lparr>a_question = q, a_answer = join '', '' (map (\<lambda>r. pystr (hd r)) rows)\<rparr>) \<and>
    (rows \<noteq> [] \<and> 1 < length (column_names resp) \<longrightarrow>
       execute_query_on q resp =
         Inr \<lparr>a_question = q,
              a_answer = join [CHR 0x0A]
                (map (\<lambda>row. join '' | ''
                        (map (\<lambda>(col, val). col @ '': '' @ pystr val)
                           (filter (\<lambda>(col, val). val \<noteq> SNone) (zip (column_names resp) row))))
                   rows)\<rparr>)"
  using assms execute_query_on_no_rows[of resp q] execute_query_on_one_column[of resp rows q]
    execute_query_on_more_columns[of resp rows q]
  by blast

theorem execute_query_serialization_witness:
  "execute_query_on ''q'' \<lparr>column_names = [''x''],
      cursor_rows = [[Hashable (SInt 1)], [Hashable (SInt 2)], [Hashable (SInt 3)]]\<rparr>
     = Inr \<lparr>a_question = ''q'', a_answer = ''1, 2, 3''\<rparr> \<and>
   execute_query_on ''q'' \<lparr>column_names = [''name'', ''age''],
      cursor_rows = [[Hashable (SStr ''Alice''), Hashable (SInt 30)],
                     [Hashable (SStr ''Bob''), Hashable SNone]]\<rparr>
     = Inr \<lparr>a_question = ''q'',
            a_answer = ''name: Alice | age: 30'' @ [CHR 0x0A] @ ''name: Bob''\<rparr> \<and>
   execute_query_on ''q'' \<lparr>column_names = [''x''], cursor_rows = []\<rparr>
     = Inr \<lparr>a_question = ''q'', a_answer = ''''\<rparr>"
proof -
  let ?r1 = "\<lparr>column_names = [''x''],
      cursor_rows = [[Hashable (SInt 1)], [Hashable (SInt 2)], [Hashable (SInt 3)]]\<rparr>"
  let ?r2 = "\<lparr>column_names = [''name'', ''age''],
      cursor_rows = [[Hashable (SStr ''Alice''), Hashable (SInt 30)],
                     [Hashable (SStr ''Bob''), Hashable SNone]]\<rparr>"
  let ?r3 = "\<lparr>column_names = [''x''], cursor_rows = []\<rparr>"
  have d1: "dedup_loop (cursor_rows ?r1) [] [] = Inr [[SInt 1], [SInt 2], [SInt 3]]"
    by (simp add: row_eq_def)
  have d2: "dedup_loop (cursor_rows ?r2) [] [] =
      Inr [[SStr ''Alice'', SInt 30], [SStr ''Bob'', SNone]]"
    by (simp add: row_eq_def)
  have d3: "dedup_loop (cursor_rows ?r3) [] [] = Inr []"
    by simp
  show ?thesis
    using execute_query_serialization[OF d1, of "''q''"]
      execute_query_serialization[OF d2, of "''q''"]
      execute_query_serialization[OF d3, of "''q''"]
    by (simp add: str_int_eval)
qed

text \<open>
  For rows that hold hashable values only, the rows the loop keeps are exactly the first
  occurrences, in the order of the cursor: row \<open>i\<close> is kept iff no row before it is
  equal to it, where equality is Python's \<open>==\<close> on the whole tuple.
\<close>

lemma dedup_loop_keeps_first_occurrences:
  "dedup_loop (map (map Hashable) rs) [] [] =
     Inr (map (\<lambda>i. rs ! i)
            (filter (\<lambda>i. \<not> list_ex (\<lambda>r. row_eq r (rs ! i)) (take i rs)) [0..<length rs]))"
  using dedup_loop_first_occurrences[of rs] unfolding first_occurrence_def[abs_def] .

lemma dedup_loop_spec_example:
  "dedup_loop [[Hashable (SStr ''a''), Hashable (SInt 1)],
               [Hashable (SStr ''b''), Hashable (SInt 2)],
               [Hashable (SStr ''a''), Hashable (SInt 1)]] [] [] =
     Inr [[SStr ''a'', SInt 1], [SStr ''b'', SInt 2]]"
  by (simp add: row_eq_def)

text \<open>
  C4, at the failing input: the backend returns two equal rows whose value is a dict (a
  node, as for \<open>RETURN s\<close>). Hashing the first tuple raises TypeError, so execute_query
  raises instead of keeping the first occurrence of the row.
\<close>

theorem execute_query_raises_on_unhashable_row:
  "execute_query_on ''Who spoke?''
     \<lparr>column_names = [''s''], cursor_rows = [[Unhashable], [Unhashable]]\<rparr>
     = Inl TypeError"
  by (simp add: execute_query_on_def)

text \<open>
  C9. In the single-column case a \<open>None\<close> value is not dropped: for every single-column
  result that contains \<open>None\<close>, the output is the comma-joined list of renderings and
  \<open>"None"\<close> is one of its elements. In the multi-column rendering of a row, a pair whose
  value is \<open>None\<close> contributes nothing.
\<close>

theorem single_column_renders_None:
  assumes "cursor_rows resp = map (\<lambda>v. [Hashable v]) vs"
    and "length (column_names resp) = 1"
    and "SNone \<in> set vs"
  shows "(\<exists>ss. execute_query_on q resp = Inr \<lparr>a_question = q, a_answer = join '', '' ss\<rparr> \<and>
              ''None'' \<in> set ss) \<and>
         (\<forall>cs1 vs1 c cs2 vs2. length cs1 = length vs1 \<longrightarrow>
            row_pairs (cs1 @ c # cs2) (vs1 @ SNone # vs2) = row_pairs (cs1 @ cs2) (vs1 @ vs2))"
proof -
  define rs where "rs = map (\<lambda>v. [v]) vs"
  define out where "out = map (\<lambda>i. rs ! i) (filter (first_occurrence rs) [0..<length rs])"
  have cr: "cursor_rows resp = map (map Hashable) rs"
    using assms(1) by (simp add: rs_def)
  have d: "dedup_loop (map (map Hashable) rs) [] [] = Inr out"
    unfolding out_def by (rule dedup_loop_first_occurrences)
  have seen: "list_ex (row_eq [SNone]) out \<longleftrightarrow> (\<exists>r\<in>set rs. row_eq r [SNone])"
    using dedup_loop_seen[OF d] .
  have "[SNone] \<in> set rs" using assms(3) by (auto simp: rs_def)
  then have "\<exists>r\<in>set rs. row_eq r [SNone]"
    using row_eq_refl by blast
  then obtain r where r: "r \<in> set out" "row_eq [SNone] r"
    using seen by (auto simp: list_ex_iff)
  have rn: "r = [SNone]"
    using r(2) by (cases r) (auto simp: row_eq_def)
  have ne: "\<forall>r\<in>set out. r \<noteq> []"
    by (auto simp: out_def rs_def)
  have out_ne: "out \<noteq> []" using r(1) by auto
  have d': "dedup_loop (cursor_rows resp) [] [] = Inr out"
    using d cr by simp
  have "execute_query_on q resp =
      Inr \<lparr>a_question = q, a_answer = join '', '' (map (\<lambda>r. pystr (hd r)) out)\<rparr>"
    using execute_query_on_one_column[OF d' out_ne assms(2) ne] .
  moreover have "''None'' \<in> set (map (\<lambda>r. pystr (hd r)) out)"
  proof -
    have "pystr (hd [SNone]) \<in> (\<lambda>r. pystr (hd r)) ` set out"
      using r(1) rn by blast
    then show ?thesis by simp
  qed
  ultimately show ?thesis
    using row_pairs_drops_None by blast
qed

theorem single_column_renders_None_witness:
  "(\<exists>ss. execute_query_on ''q''
            \<lparr>column_names = [''x''], cursor_rows = [[Hashable SNone], [Hashable (SInt 1)]]\<rparr>
          = Inr \<lparr>a_question = ''q'', a_answer = join '', '' ss\<rparr> \<and> ''None'' \<in> set ss) \<and>
   execute_query_on ''q''
     \<lparr>column_names = [''x''], cursor_rows = [[Hashable SNone], [Hashable (SInt 1)]]\<rparr>
     = Inr \<lparr>a_question = ''q'', a_answer = ''None, 1''\<rparr> \<and>
   row_pairs [''name'', ''age''] [SStr ''Bob'', SNone] = ''name: Bob''"
proof -
  let ?resp = "\<lparr>column_names = [''x''], cursor_rows = [[Hashable SNone], [Hashable (SInt 1)]]\<rparr>"
  have h1: "cursor_rows ?resp = map (\<lambda>v. [Hashable v]) [SNone, SInt 1]" by simp
  have h2: "length (column_names ?resp) = 1" by simp
  have h3: "SNone \<in> set [SNone, SInt 1]" by simp
  have ev: "execute_query_on ''q'' ?resp = Inr \<lparr>a_question = ''q'', a_answer = ''None, 1''\<rparr>"
    by (simp add: execute_query_on_def serialize_def row_eq_def str_int_eval)
  have rp: "row_pairs [''name'', ''age''] [SStr ''Bob'', SNone] = ''name: Bob''"
    by (simp add: row_pairs_def)
  show ?thesis
    using single_column_renders_None[OF h1 h2 h3, of "''q''"] ev rp by blast
qed

section \<open>Properties of run\<close>

text \<open>
  C7. When the query-generation service returns no query, \<open>run\<close> returns the outcome
  whose query and answer fields are both \<open>"N/A"\<close>, and the only call made is the one to
  the query-generation service: no query is executed and no answer is synthesized.
\<close>

theorem run_without_query:
  assumes "text2cypher sv baml_schema q = Inr None"
  shows "run sv baml_schema q =
     ([CallText2Cypher baml_schema q],
      Inr \<lparr>rr_question = q, rr_cypher = ''N/A'', rr_response = ''N/A''\<rparr>)"
  using assms by (simp add: run_def)

theorem run_without_query_witness:
  "run no_query_pipeline ''schema'' ''Who gave the keynote?'' =
     ([CallText2Cypher ''schema'' ''Who gave the keynote?''],
      Inr \<lparr>rr_question = ''Who gave the keynote?'', rr_cypher = ''N/A'',
           rr_response = ''N/A''\<rparr>)"
  using run_without_query [of no_query_pipeline "''schema''" "''Who gave the keynote?''"]
  by (simp add: no_query_pipeline_def)

section \<open>Properties of load_questions\<close>

lemma get_stripped_row_question:
  "get_stripped row ''Question'' = Inr s \<Longrightarrow> row_question row = s"
  by (simp add: row_question_def)

lemma load_rows_ids:
  "load_rows k rows = Inr qs \<Longrightarrow>
     map q_id qs = map (\<lambda>i. k + i) (filter (\<lambda>i. row_question (rows ! i) \<noteq> []) [0..<length rows])"
proof (induction rows arbitrary: k qs)
  case Nil
  then show ?case by simp
next
  case (Cons row rows)
  from Cons.prems obtain question baseline rest where
    q: "get_stripped row ''Question'' = Inr question"
    and b: "get_stripped row ''Baseline answer'' = Inr baseline"
    and r: "load_rows (Suc k) rows = Inr rest"
    and qs: "qs = (if question \<noteq> []
                   then \<lparr>q_id = k, q_question = question, q_baseline = baseline\<rparr> # rest
                   else rest)"
    by (auto split: sum.splits)
  have ih: "map q_id rest =
      map (\<lambda>i. Suc k + i) (filter (\<lambda>i. row_question (rows ! i) \<noteq> []) [0..<length rows])"
    using Cons.IH[OF r] .
  have upt: "[0..<length (row # rows)] = 0 # map Suc [0..<length rows]"
    by (simp add: upt_conv_Cons map_Suc_upt del: upt_Suc)
  have rq: "row_question row = question"
    using q by (rule get_stripped_row_question)
  show ?case
    unfolding upt using qs ih rq by (simp add: filter_map comp_def)
qed

lemma consecutive_nth:
  fixes xs :: "nat list"
  assumes "\<forall>n. Suc n < length xs \<longrightarrow> xs ! Suc n = Suc (xs ! n)"
  shows "n < length xs \<Longrightarrow> xs ! n = xs ! 0 + n"
proof (induction n)
  case 0
  show ?case by simp
next
  case (Suc n)
  have "xs ! n = xs ! 0 + n"
    using Suc.IH Suc.prems by simp
  moreover have "xs ! Suc n = Suc (xs ! n)"
    using assms Suc.prems by blast
  ultimately show ?case by simp
qed

text \<open>
  A strictly increasing list that holds \<open>a\<close> and \<open>c\<close> but not some \<open>b\<close> between them
  has two successive elements that differ by more than one.
\<close>

lemma strict_sorted_gap:
  fixes xs :: "nat list"
  assumes sorted: "sorted_wrt (<) xs"
    and a: "a \<in> set xs" and c: "c \<in> set xs" and b: "b \<notin> set xs"
    and ab: "a < b" and bc: "b < c"
  shows "\<exists>n. Suc n < length xs \<and> Suc (xs ! n) < xs ! Suc n"
proof (rule ccontr)
  assume no: "\<not> (\<exists>n. Suc n < length xs \<and> Suc (xs ! n) < xs ! Suc n)"
  have step: "\<forall>n. Suc n < length xs \<longrightarrow> xs ! Suc n = Suc (xs ! n)"
  proof (intro allI impI)
    fix n assume n: "Suc n < length xs"
    have "n < Suc n" by simp
    then have "xs ! n < xs ! Suc n"
      using sorted n sorted_wrt_nth_less by blast
    moreover have "\<not> Suc (xs ! n) < xs ! Suc n"
      using no n by blast
    ultimately show "xs ! Suc n = Suc (xs ! n)" by linarith
  qed
  obtain p where p: "p < length xs" "xs ! p = a"
    using a in_set_conv_nth[of a xs] by blast
  obtain q where q: "q < length xs" "xs ! q = c"
    using c in_set_conv_nth[of c xs] by blast
  have pa: "a = xs ! 0 + p" using consecutive_nth[OF step p(1)] p(2) by simp
  have qc: "c = xs ! 0 + q" using consecutive_nth[OF step q(1)] q(2) by simp
  define m where "m = p + (b - a)"
  have m: "m < length xs" using pa qc ab bc q(1) unfolding m_def by linarith
  have "xs ! m = xs ! 0 + m" using consecutive_nth[OF step m] .
  then have "xs ! m = b" using pa ab unfolding m_def by linarith
  then have "b \<in> set xs" using m nth_mem by blast
  then show False using b by simp
qed

text \<open>
  C10, amended. The id of a returned question is the 1-based position of its row among
  all rows that the reader yields, rows with an empty question included, although those
  rows are not returned. When a row with an empty question precedes a row with a
  question, the returned ids are not the numbers 1 to n: a positive number below a
  returned id is missing. When a row with an empty question lies between two rows with
  a question, the returned ids are non-contiguous: two successive returned ids differ
  by more than one.
\<close>

theorem load_questions_ids_are_row_positions:
  assumes "load_questions rows = Inr qs"
  shows "map q_id qs =
           map Suc (filter (\<lambda>i. row_question (rows ! i) \<noteq> []) [0..<length rows]) \<and>
         ((\<exists>i j. i < j \<and> j < length rows \<and>
                 row_question (rows ! i) = [] \<and> row_question (rows ! j) \<noteq> []) \<longrightarrow>
            map q_id qs \<noteq> [1..<Suc (length qs)] \<and>
            (\<exists>k m. 1 \<le> k \<and> k < m \<and> m \<in> set (map q_id qs) \<and> k \<notin> set (map q_id qs))) \<and>
         ((\<exists>i j k. i < j \<and> j < k \<and> k < length rows \<and> row_question (rows ! i) \<noteq> [] \<and>
                 row_question (rows ! j) = [] \<and> row_question (rows ! k) \<noteq> []) \<longrightarrow>
            (\<exists>n. Suc n < length qs \<and> Suc (q_id (qs ! n)) < q_id (qs ! Suc n)))"
proof -
  let ?P = "\<lambda>i. row_question (rows ! i) \<noteq> []"
  have ids: "map q_id qs = map Suc (filter ?P [0..<length rows])"
    using load_rows_ids[of 1 rows qs] assms by (simp add: load_questions_def)
  have set_ids: "set (map q_id qs) = Suc ` {i. i < length rows \<and> ?P i}"
    unfolding ids by auto
  have sorted: "sorted_wrt (<) (map q_id qs)"
    unfolding ids by (simp add: sorted_wrt_map sorted_wrt_filter)
  have part2: "map q_id qs \<noteq> [1..<Suc (length qs)] \<and>
        (\<exists>k m. 1 \<le> k \<and> k < m \<and> m \<in> set (map q_id qs) \<and> k \<notin> set (map q_id qs))"
    if ij: "i < j" "j < length rows" "\<not> ?P i" "?P j" for i j
  proof -
    have gap: "1 \<le> Suc i \<and> Suc i < Suc j \<and> Suc j \<in> set (map q_id qs) \<and>
               Suc i \<notin> set (map q_id qs)"
      unfolding set_ids using ij by auto
    have "map q_id qs \<noteq> [1..<Suc (length qs)]"
    proof
      assume eq: "map q_id qs = [1..<Suc (length qs)]"
      have "Suc j \<in> set [1..<Suc (length qs)]" using gap eq by simp
      then have "Suc i \<in> set [1..<Suc (length qs)]" using ij(1) by auto
      then show False using gap eq by simp
    qed
    then show ?thesis using gap by blast
  qed
  have part3: "\<exists>n. Suc n < length qs \<and> Suc (q_id (qs ! n)) < q_id (qs ! Suc n)"
    if ijk: "i < j" "j < k" "k < length rows" "?P i" "\<not> ?P j" "?P k" for i j k
  proof -
    have a: "Suc i \<in> set (map q_id qs)" unfolding set_ids using ijk by auto
    have c: "Suc k \<in> set (map q_id qs)" unfolding set_ids using ijk by auto
    have b: "Suc j \<notin> set (map q_id qs)" unfolding set_ids using ijk by auto
    obtain n where n: "Suc n < length (map q_id qs)"
      "Suc (map q_id qs ! n) < map q_id qs ! Suc n"
      using strict_sorted_gap[OF sorted a c b] ijk(1,2) by auto
    then show ?thesis by auto
  qed
  show ?thesis using ids part2 part3 by blast
qed

theorem load_questions_ids_are_row_positions_witness:
  "load_questions question_blank_question =
     Inr [\<lparr>q_id = 1, q_question = ''Who gave the keynote?'', q_baseline = ''Jane Doe''\<rparr>,
          \<lparr>q_id = 3, q_question = ''Where was the event held?'', q_baseline = ''London''\<rparr>] \<and>
   map q_id [\<lparr>q_id = 1, q_question = ''Who gave the keynote?'', q_baseline = ''Jane Doe''\<rparr>,
             \<lparr>q_id = 3, q_question = ''Where was the event held?'', q_baseline = ''London''\<rparr>]
     \<noteq> [1..<Suc (length
                 [\<lparr>q_id = 1, q_question = ''Who gave the keynote?'', q_baseline = ''Jane Doe''\<rparr>,
                  \<lparr>q_id = 3, q_question = ''Where was the event held?'',
                     q_baseline = ''London''\<rparr>])] \<and>
   (\<exists>n. Suc n < length
             [\<lparr>q_id = 1, q_question = ''Who gave the keynote?'', q_baseline = ''Jane Doe''\<rparr>,
              \<lparr>q_id = 3, q_question = ''Where was the event held?'', q_baseline = ''London''\<rparr>] \<and>
        Suc (q_id ([\<lparr>q_id = 1, q_question = ''Who gave the keynote?'', q_baseline = ''Jane Doe''\<rparr>,
                   \<lparr>q_id = 3, q_question = ''Where was the event held?'',
                      q_baseline = ''London''\<rparr>] ! n))
          < q_id ([\<lparr>q_id = 1, q_question = ''Who gave the keynote?'', q_baseline = ''Jane Doe''\<rparr>,
                  \<lparr>q_id = 3, q_question = ''Where was the event held?'',
                     q_baseline = ''London''\<rparr>] ! Suc n))"
proof -
  let ?qs = "[\<lparr>q_id = 1, q_question = ''Who gave the keynote?'', q_baseline = ''Jane Doe''\<rparr>,
              \<lparr>q_id = 3, q_question = ''Where was the event held?'', q_baseline = ''London''\<rparr>]"
  have l: "load_questions question_blank_question = Inr ?qs"
    by (simp add: load_questions_def question_blank_question_def get_stripped_def strip_def
        is_space_def)
  have r0: "row_question (question_blank_question ! 0) \<noteq> []"
    by (simp add: row_question_def question_blank_question_def get_stripped_def strip_def
        is_space_def)
  have r1: "row_question (question_blank_question ! 1) = []"
    by (simp add: row_question_def question_blank_question_def get_stripped_def strip_def
        is_space_def)
  have r2: "row_question (question_blank_question ! 2) \<noteq> []"
    by (simp add: row_question_def question_blank_question_def get_stripped_def strip_def
        is_space_def)
  have len: "length question_blank_question = 3"
    by (simp add: question_blank_question_def)
  have pre: "\<exists>i j. i < j \<and> j < length question_blank_question \<and>
          row_question (question_blank_question ! i) = [] \<and>
          row_question (question_blank_question ! j) \<noteq> []"
  proof (intro exI conjI)
    show "(1::nat) < 2" by simp
    show "2 < length question_blank_question" by (simp add: len)
    show "row_question (question_blank_question ! 1) = []" by (rule r1)
    show "row_question (question_blank_question ! 2) \<noteq> []" by (rule r2)
  qed
  have between: "\<exists>i j k. i < j \<and> j < k \<and> k < length question_blank_question \<and>
          row_question (question_blank_question ! i) \<noteq> [] \<and>
          row_question (question_blank_question ! j) = [] \<and>
          row_question (question_blank_question ! k) \<noteq> []"
  proof (intro exI conjI)
    show "(0::nat) < 1" by simp
    show "(1::nat) < 2" by simp
    show "2 < length question_blank_question" by (simp add: len)
    show "row_question (question_blank_question ! 0) \<noteq> []" by (rule r0)
    show "row_question (question_blank_question ! 1) = []" by (rule r1)
    show "row_question (question_blank_question ! 2) \<noteq> []" by (rule r2)
  qed
  have ne: "map q_id ?qs \<noteq> [1..<Suc (length ?qs)]"
    using load_questions_ids_are_row_positions[OF l] pre by blast
  have gap: "\<exists>n. Suc n < length ?qs \<and> Suc (q_id (?qs ! n)) < q_id (?qs ! Suc n)"
    using load_questions_ids_are_row_positions[OF l] between by blast
  show ?thesis
    by (rule conjI[OF l conjI[OF ne gap]])
qed

text \<open>
  C10, as stated, fails: here a row with an empty question precedes the rows with a
  question, and the returned ids are 2 and 3, which are contiguous.
\<close>

theorem leading_blank_ids_contiguous_counterexample:
  "load_questions blank_then_two_questions =
     Inr [\<lparr>q_id = 2, q_question = ''Who gave the keynote?'', q_baseline = ''Jane Doe''\<rparr>,
          \<lparr>q_id = 3, q_question = ''Where was the event held?'', q_baseline = ''London''\<rparr>] \<and>
   row_question (blank_then_two_questions ! 0) = [] \<and>
   row_question (blank_then_two_questions ! 1) \<noteq> []"
  by (simp add: load_questions_def blank_then_two_questions_def row_question_def
      get_stripped_def strip_def is_space_def)

section \<open>Properties of get_schema_baml\<close>

lemma sort_key_mset_inj:
  fixes f :: "'a \<Rightarrow> 'k::linorder"
  assumes "inj f" and "mset xs = mset ys"
  shows "sort_key f xs = sort_key f ys"
proof -
  have "map f (sort_key f xs) = sort (map f xs)"
    by (rule properties_for_sort[symmetric]) simp_all
  moreover have "map f (sort_key f ys) = sort (map f ys)"
    by (rule properties_for_sort[symmetric]) simp_all
  moreover have "sort (map f xs) = sort (map f ys)"
  proof (rule properties_for_sort)
    show "mset (sort (map f ys)) = mset (map f xs)"
      using assms(2) by simp
  qed simp
  ultimately have "map f (sort_key f xs) = map f (sort_key f ys)" by simp
  then show ?thesis
    using assms(1) by (simp add: inj_map_eq_map)
qed

lemma inj_prop_key: "inj (\<lambda>prop :: property. (p_name prop, p_type prop))"
  by (rule injI) simp

lemma inj_rel_key: "inj (\<lambda>rel :: rel_table. (rel_src rel, rel_name rel, rel_dst rel))"
  by (rule injI) simp

lemma table_properties_perm:
  assumes "rel_sum (=) (\<lambda>a b. mset a = mset b) (table_info c1 t) (table_info c2 t)"
  shows "table_properties c1 t = table_properties c2 t"
proof (cases "table_info c1 t")
  case (Inl e)
  then show ?thesis using assms
    by (cases "table_info c2 t") (auto simp: table_properties_def)
next
  case (Inr rows1)
  then obtain rows2 where r2: "table_info c2 t = Inr rows2" "mset rows1 = mset rows2"
    using assms by (cases "table_info c2 t") auto
  let ?mk = "\<lambda>(n, ty). \<lparr>p_name = n, p_type = ty\<rparr>"
  have "mset (map ?mk rows1) = mset (map ?mk rows2)"
    using r2(2) by simp
  then have "sort_key (\<lambda>prop. (p_name prop, p_type prop)) (map ?mk rows1) =
             sort_key (\<lambda>prop. (p_name prop, p_type prop)) (map ?mk rows2)"
    by (rule sort_key_mset_inj[OF inj_prop_key])
  then show ?thesis
    using Inr r2(1) by (simp add: table_properties_def)
qed

text \<open>
  C6. The grounding text does not depend on the order in which the backend enumerates
  an unchanged schema: when two connections give the same node tables, the same
  relationship tables and, for every table, the same property rows (or the same error),
  each in any order, \<open>get_schema_baml\<close> gives the same result for both.
\<close>

theorem get_schema_baml_deterministic:
  assumes nodes: "mset (node_table_names c1) = mset (node_table_names c2)"
    and rels: "mset (rel_table_names c1) = mset (rel_table_names c2)"
    and info: "\<forall>t. rel_sum (=) (\<lambda>a b. mset a = mset b) (table_info c1 t) (table_info c2 t)"
  shows "get_schema_baml c1 = get_schema_baml c2"
proof -
  have tp: "table_properties c1 = table_properties c2"
    using info table_properties_perm by blast
  have ne: "node_entry c1 = node_entry c2"
    by (rule ext) (simp add: node_entry_def tp)
  have ee: "edge_entry c1 = edge_entry c2"
    by (rule ext) (simp add: edge_entry_def tp)
  have sn: "sort (node_table_names c1) = sort (node_table_names c2)"
    using nodes by (metis properties_for_sort sorted_sort mset_sort)
  have sr: "sort_key (\<lambda>rel. (rel_src rel, rel_name rel, rel_dst rel)) (rel_table_names c1) =
            sort_key (\<lambda>rel. (rel_src rel, rel_name rel, rel_dst rel)) (rel_table_names c2)"
    using sort_key_mset_inj[OF inj_rel_key rels] .
  have "get_schema_dict c1 = get_schema_dict c2"
    by (simp only: get_schema_dict_def ne ee sn sr)
  then show ?thesis
    by (simp add: get_schema_baml_def)
qed

theorem get_schema_baml_deterministic_witness:
  "get_schema_baml conference_conn = get_schema_baml conference_conn_reordered"
proof -
  have n: "mset (node_table_names conference_conn) =
           mset (node_table_names conference_conn_reordered)"
    by (simp add: conference_conn_def conference_conn_reordered_def)
  have r: "mset (rel_table_names conference_conn) =
           mset (rel_table_names conference_conn_reordered)"
    by (simp add: conference_conn_def conference_conn_reordered_def)
  have i: "\<forall>t. rel_sum (=) (\<lambda>a b. mset a = mset b)
                (table_info conference_conn t) (table_info conference_conn_reordered t)"
    by (simp add: conference_conn_def conference_conn_reordered_def)
  show ?thesis
    using get_schema_baml_deterministic[OF n r i] .
qed

section \<open>Properties of judge_response and run_evaluation\<close>

lemma splitlines_from_nonempty: "s \<noteq> [] \<Longrightarrow> splitlines_from cur s \<noteq> []"
  by (induction cur s rule: splitlines_from.induct) auto

lemma splitlines_nonempty: "s \<noteq> [] \<Longrightarrow> splitlines s \<noteq> []"
  by (simp add: splitlines_def splitlines_from_nonempty)

lemma run_calls_no_judge: "CallJudge p \<notin> set (fst (run sv baml_schema q))"
  by (auto simp: run_def split: sum.splits option.splits)

lemma evaluate_question_pipeline_error:
  assumes "run (pipeline h) baml_schema (q_question q) = (calls, Inl e)"
    and "format_exc h e \<noteq> []"
  shows "evaluate_question h baml_schema q =
     (calls,
      Inr \<lparr>rec_id = q_id q, rec_question = q_question q, rec_baseline = q_baseline q,
           rec_cypher = '''', rec_response = '''',
           rec_score = 1, rec_label = ''no_answer'',
           rec_reasoning = JStr (''Exception: '' @ last (splitlines (format_exc h e))),
           rec_error = Some (format_exc h e)\<rparr>)"
proof -
  obtain l ls where sl: "splitlines (format_exc h e) = l # ls"
    using splitlines_nonempty[OF assms(2)] by (cases "splitlines (format_exc h e)") auto
  show ?thesis
    using assms sl
    by (simp add: evaluate_question_def try_pipeline_def score_response_def score_label_def
        SCORE_LABELS_def)
qed

lemma evaluate_question_no_response:
  assumes "run (pipeline h) baml_schema (q_question q) = (calls, Inr rag_result)"
    and "rr_response rag_result = [] \<or> rr_response rag_result = ''N/A''"
  shows "evaluate_question h baml_schema q =
     (calls,
      Inr \<lparr>rec_id = q_id q, rec_question = q_question q, rec_baseline = q_baseline q,
           rec_cypher = rr_cypher rag_result, rec_response = rr_response rag_result,
           rec_score = 1, rec_label = ''no_answer'',
           rec_reasoning = JStr ''No response returned'', rec_error = None\<rparr>)"
  using assms
  by (auto simp: evaluate_question_def try_pipeline_def score_response_def score_label_def
      SCORE_LABELS_def)

lemma evaluate_question_judged:
  assumes "run (pipeline h) baml_schema (q_question q) = (calls, Inr rag_result)"
    and "rr_response rag_result \<noteq> []" and "rr_response rag_result \<noteq> ''N/A''"
  shows "evaluate_question h baml_schema q =
     (calls @ [CallJudge (judge_prompt (q_question q) (q_baseline q) (rr_response rag_result))],
      case judge_response h (q_question q) (q_baseline q) (rr_response rag_result) of
        Inl e \<Rightarrow> Inl e
      | Inr (score, reasoning) \<Rightarrow>
         Inr \<lparr>rec_id = q_id q, rec_question = q_question q, rec_baseline = q_baseline q,
           rec_cypher = rr_cypher rag_result, rec_response = rr_response rag_result,
           rec_score = score, rec_label = score_label score,
           rec_reasoning = reasoning, rec_error = None\<rparr>)"
  using assms
  by (auto simp: evaluate_question_def try_pipeline_def score_response_def
      split: sum.splits prod.splits)

lemma evaluate_question_returns:
  assumes judge: "\<And>q b r. \<exists>sr. judge_response h q b r = Inr sr"
    and tb: "\<And>e. format_exc h e \<noteq> []"
  shows "\<exists>calls r. evaluate_question h baml_schema q = (calls, Inr r) \<and> rec_id r = q_id q"
proof -
  obtain calls outcome where run: "run (pipeline h) baml_schema (q_question q) = (calls, outcome)"
    by (cases "run (pipeline h) baml_schema (q_question q)")
  show ?thesis
  proof (cases outcome)
    case (Inl e)
    then show ?thesis
      using evaluate_question_pipeline_error[of h baml_schema q calls e] run tb by simp
  next
    case (Inr rag_result)
    show ?thesis
    proof (cases "rr_response rag_result = [] \<or> rr_response rag_result = ''N/A''")
      case True
      then show ?thesis
        using evaluate_question_no_response[of h baml_schema q calls rag_result] run Inr by simp
    next
      case False
      obtain score reasoning where
        "judge_response h (q_question q) (q_baseline q) (rr_response rag_result) = Inr (score, reasoning)"
        using judge[of "q_question q" "q_baseline q" "rr_response rag_result"] by auto
      then show ?thesis
        using evaluate_question_judged[of h baml_schema q calls rag_result] run Inr False by simp
    qed
  qed
qed

lemma evaluation_loop_completes:
  assumes judge: "\<And>q b r. \<exists>sr. judge_response h q b r = Inr sr"
    and tb: "\<And>e. format_exc h e \<noteq> []"
  shows "\<exists>calls rs. evaluation_loop h baml_schema qs = (calls, Inr rs) \<and>
           length rs = length qs \<and>
           (\<forall>i<length qs. snd (evaluate_question h baml_schema (qs ! i)) = Inr (rs ! i))"
proof (induction qs)
  case Nil
  then show ?case by simp
next
  case (Cons q qs)
  obtain c r where q: "evaluate_question h baml_schema q = (c, Inr r)"
    using evaluate_question_returns[OF judge tb, of baml_schema q] by blast
  obtain cs rs where rs: "evaluation_loop h baml_schema qs = (cs, Inr rs)"
    "length rs = length qs"
    "\<forall>i<length qs. snd (evaluate_question h baml_schema (qs ! i)) = Inr (rs ! i)"
    using Cons.IH by blast
  have "evaluation_loop h baml_schema (q # qs) = (c @ cs, Inr (r # rs))"
    using q rs(1) by simp
  moreover have "\<forall>i<length (q # qs).
      snd (evaluate_question h baml_schema ((q # qs) ! i)) = Inr ((r # rs) ! i)"
    using q rs(3) by (auto simp: nth_Cons split: nat.splits)
  ultimately show ?case using rs(2) by auto
qed

lemma parse_judge_reply_structured:
  assumes "map_of kvs ''score'' = Some v" and "py_int v = Inr n"
  shows "parse_judge_reply (Some (JObject kvs)) text = Inr (n, get_reasoning (JObject kvs))"
  using assms by (simp add: parse_judge_reply_def judge_try_def)

lemma parse_judge_reply_fallback:
  assumes "judge_try loaded = Inl e" and "caught e"
  shows "parse_judge_reply loaded text = scan_digits text text"
  using assms by (simp add: parse_judge_reply_def)

text \<open>The digit scan returns a score between 1 and 5 whenever it returns.\<close>

lemma scan_digits_in_range:
  "scan_digits cs reply = Inr (n, r) \<Longrightarrow> 1 \<le> n \<and> n \<le> 5"
  by (induction cs reply rule: scan_digits.induct) (auto split: if_splits sum.splits)

lemma parse_judge_reply_undecodable:
  "parse_judge_reply None text = scan_digits text text"
  by (simp add: parse_judge_reply_def judge_try_def)

lemma parse_judge_reply_first_digit_example:
  "parse_judge_reply None ''Score: 4 out of 5'' = Inr (4, JStr ''Score: 4 out of 5'')"
  by (simp add: parse_judge_reply_undecodable isdigit_def int_of_char_def digit_val_def)

lemma parse_judge_reply_no_digit_example:
  "parse_judge_reply None ''no score given'' =
     Inr (1, JStr ''Could not parse judge response: no score given'')"
  by (simp add: parse_judge_reply_undecodable isdigit_def)

text \<open>A superscript digit passes \<open>isdigit\<close> and makes \<open>int\<close> raise inside the handler.\<close>

lemma scan_digits_superscript_raises:
  "scan_digits [CHR 0xB2] text = Inl ValueError"
  by (simp add: isdigit_def int_of_char_def digit_val_def)

text \<open>With the questions loaded and the schema rendered, \<open>run_evaluation\<close> is the loop.\<close>

lemma run_evaluation_is_loop:
  "load_questions rows = Inr questions \<Longrightarrow> get_schema_baml conn = Inr baml_schema \<Longrightarrow>
     run_evaluation h conn rows = evaluation_loop h baml_schema questions"
  by (simp add: run_evaluation_def)

lemma summary_rows_labels:
  "map (\<lambda>(score_val, label, n). (score_val, label)) (summary_rows results) = SCORE_LABELS"
  by (simp add: summary_rows_def SCORE_LABELS_def score_label_def)

text \<open>
  C5, at the failing input: the judge replies with the bare text \<open>4\<close>, which
  \<open>json.loads\<close> turns into the number 4. Subscripting it raises TypeError, which the
  handler does not catch, so \<open>judge_response\<close> raises instead of falling back to the
  digit scan.
\<close>

theorem judge_response_raises_on_bare_digit:
  "judge_response (example_harness keynote_pipeline (Inr ''4'') (Some (JInt 4)))
     ''Who gave the keynote?'' ''Jane Doe'' ''Jane Doe gave the keynote.'' = Inl TypeError"
  by (simp add: judge_response_def example_harness_def parse_judge_reply_def judge_try_def)

text \<open>
  C2, at the failing input: the judge replies with a structured pair whose score is 7.
  The record carries score 7 and the label \<open>unknown\<close>.
\<close>

theorem out_of_range_score_recorded:
  \<open>snd (evaluate_question
          (example_harness keynote_pipeline (Inr ''{"score": 7, "reasoning": "great"}'')
             (Some (JObject [(''score'', JInt 7), (''reasoning'', JStr ''great'')])))
          ''schema'' keynote_question) =
     Inr \<lparr>rec_id = 1, rec_question = ''Who gave the keynote?'', rec_baseline = ''Jane Doe'',
          rec_cypher = ''MATCH (t:Talk) RETURN t.speaker'',
          rec_response = ''Jane Doe gave the keynote.'',
          rec_score = 7, rec_label = ''unknown'', rec_reasoning = JStr ''great'',
          rec_error = None\<rparr>\<close>
proof -
  let ?h = \<open>example_harness keynote_pipeline (Inr ''{"score": 7, "reasoning": "great"}'')
             (Some (JObject [(''score'', JInt 7), (''reasoning'', JStr ''great'')]))\<close>
  have run: "run (pipeline ?h) ''schema'' (q_question keynote_question) =
      ([CallText2Cypher ''schema'' ''Who gave the keynote?'',
        CallExecute ''MATCH (t:Talk) RETURN t.speaker'',
        CallAnswerQuestion ''Who gave the keynote?'' ''Jane Doe''],
       Inr \<lparr>rr_question = ''Who gave the keynote?'',
            rr_cypher = ''MATCH (t:Talk) RETURN t.speaker'',
            rr_response = ''Jane Doe gave the keynote.''\<rparr>)"
    by (simp add: run_def example_harness_def keynote_pipeline_def keynote_question_def
        execute_query_def execute_query_on_def serialize_def)
  have judge: "judge_response ?h (q_question keynote_question) (q_baseline keynote_question)
      ''Jane Doe gave the keynote.'' = Inr (7, JStr ''great'')"
    by (simp add: judge_response_def example_harness_def parse_judge_reply_def judge_try_def)
  have label: "score_label 7 = ''unknown''"
    by (simp add: score_label_def SCORE_LABELS_def)
  show ?thesis
    using evaluate_question_judged[OF run] judge label
    by (simp add: keynote_question_def)
qed

text \<open>
  C8. When the pipeline returns normally with a response that is empty or \<open>"N/A"\<close>, the
  record has score 1, the label \<open>no_answer\<close> and the reasoning \<open>No response returned\<close>,
  and the calls made for the question are those of the pipeline: the judge is not
  called.
\<close>

theorem no_response_scores_one_without_judge:
  assumes "run (pipeline h) baml_schema (q_question q) = (calls, Inr rag_result)"
    and "rr_response rag_result = [] \<or> rr_response rag_result = ''N/A''"
  shows "evaluate_question h baml_schema q =
     (calls,
      Inr \<lparr>rec_id = q_id q, rec_question = q_question q, rec_baseline = q_baseline q,
           rec_cypher = rr_cypher rag_result, rec_response = rr_response rag_result,
           rec_score = 1, rec_label = ''no_answer'',
           rec_reasoning = JStr ''No response returned'', rec_error = None\<rparr>) \<and>
     (\<forall>p. CallJudge p \<notin> set (fst (evaluate_question h baml_schema q)))"
proof -
  have "\<forall>p. CallJudge p \<notin> set calls"
    using run_calls_no_judge[of _ "pipeline h" baml_schema "q_question q"] assms(1) by simp
  then show ?thesis
    using evaluate_question_no_response[OF assms] by simp
qed

theorem no_response_scores_one_without_judge_witness:
  "evaluate_question (example_harness no_query_pipeline (Inl (ServiceError ''not reached'')) None)
     ''schema'' keynote_question =
     ([CallText2Cypher ''schema'' ''Who gave the keynote?''],
      Inr \<lparr>rec_id = 1, rec_question = ''Who gave the keynote?'', rec_baseline = ''Jane Doe'',
           rec_cypher = ''N/A'', rec_response = ''N/A'',
           rec_score = 1, rec_label = ''no_answer'',
           rec_reasoning = JStr ''No response returned'', rec_error = None\<rparr>)"
proof -
  let ?h = "example_harness no_query_pipeline (Inl (ServiceError ''not reached'')) None"
  let ?rag = "\<lparr>rr_question = ''Who gave the keynote?'', rr_cypher = ''N/A'',
               rr_response = ''N/A''\<rparr>"
  have run: "run (pipeline ?h) ''schema'' (q_question keynote_question) =
      ([CallText2Cypher ''schema'' ''Who gave the keynote?''], Inr ?rag)"
    by (simp add: run_def example_harness_def no_query_pipeline_def keynote_question_def)
  have resp: "rr_response ?rag = [] \<or> rr_response ?rag = ''N/A''"
    by simp
  show ?thesis
    using no_response_scores_one_without_judge[OF run resp]
    by (simp add: keynote_question_def)
qed

text \<open>
  C1, as stated, fails: the judge call is made outside the \<open>try\<close>. When the judge
  service raises while the first question is processed, the run ends with that
  exception and no record is returned.
\<close>

theorem judge_error_stops_run_counterexample:
  "snd (evaluation_loop
          (example_harness keynote_pipeline (Inl (ServiceError ''503 UNAVAILABLE'')) None)
          ''schema'' [keynote_question, venue_question]) =
     Inl (ServiceError ''503 UNAVAILABLE'')"
proof -
  let ?h = "example_harness keynote_pipeline (Inl (ServiceError ''503 UNAVAILABLE'')) None"
  have run: "run (pipeline ?h) ''schema'' (q_question keynote_question) =
      ([CallText2Cypher ''schema'' ''Who gave the keynote?'',
        CallExecute ''MATCH (t:Talk) RETURN t.speaker'',
        CallAnswerQuestion ''Who gave the keynote?'' ''Jane Doe''],
       Inr \<lparr>rr_question = ''Who gave the keynote?'',
            rr_cypher = ''MATCH (t:Talk) RETURN t.speaker'',
            rr_response = ''Jane Doe gave the keynote.''\<rparr>)"
    by (simp add: run_def example_harness_def keynote_pipeline_def keynote_question_def
        execute_query_def execute_query_on_def serialize_def)
  have judge: "judge_response ?h (q_question keynote_question) (q_baseline keynote_question)
      ''Jane Doe gave the keynote.'' = Inl (ServiceError ''503 UNAVAILABLE'')"
    by (simp add: judge_response_def example_harness_def)
  have "snd (evaluate_question ?h ''schema'' keynote_question) =
      Inl (ServiceError ''503 UNAVAILABLE'')"
    using evaluate_question_judged[OF run] judge by simp
  then show ?thesis
    by (cases "evaluate_question ?h ''schema'' keynote_question") simp
qed

text \<open>
  C1, amended. An error raised by the pipeline while a question is processed does not
  end the run: provided the judge returns a score whenever it is called, the loop
  returns one record per question, and for every question on which the pipeline raises
  the record has score 1, the label \<open>no_answer\<close>, and the reasoning \<open>Exception:\<close> followed
  by the last line of the trace. The trace text is never empty.
\<close>

theorem pipeline_errors_do_not_stop_run:
  assumes "\<forall>q b r. \<exists>sr. judge_response h q b r = Inr sr"
    and "\<forall>e. format_exc h e \<noteq> []"
  shows "\<exists>calls rs. evaluation_loop h baml_schema qs = (calls, Inr rs) \<and>
     length rs = length qs \<and>
     (\<forall>i<length qs. \<forall>c e.
        run (pipeline h) baml_schema (q_question (qs ! i)) = (c, Inl e) \<longrightarrow>
        rs ! i =
          \<lparr>rec_id = q_id (qs ! i), rec_question = q_question (qs ! i),
           rec_baseline = q_baseline (qs ! i), rec_cypher = [], rec_response = [],
           rec_score = 1, rec_label = ''no_answer'',
           rec_reasoning = JStr (''Exception: '' @ last (splitlines (format_exc h e))),
           rec_error = Some (format_exc h e)\<rparr>)"
proof -
  have judge: "\<And>q b r. \<exists>sr. judge_response h q b r = Inr sr"
    using assms(1) by blast
  have tb: "\<And>e. format_exc h e \<noteq> []"
    using assms(2) by blast
  obtain calls rs where loop: "evaluation_loop h baml_schema qs = (calls, Inr rs)"
    and len: "length rs = length qs"
    and each: "\<forall>i<length qs. snd (evaluate_question h baml_schema (qs ! i)) = Inr (rs ! i)"
    using evaluation_loop_completes[OF judge tb, of baml_schema qs] by blast
  have "rs ! i =
          \<lparr>rec_id = q_id (qs ! i), rec_question = q_question (qs ! i),
           rec_baseline = q_baseline (qs ! i), rec_cypher = [], rec_response = [],
           rec_score = 1, rec_label = ''no_answer'',
           rec_reasoning = JStr (''Exception: '' @ last (splitlines (format_exc h e))),
           rec_error = Some (format_exc h e)\<rparr>"
    if "i < length qs" and "run (pipeline h) baml_schema (q_question (qs ! i)) = (c, Inl e)"
    for i c e
  proof -
    have "snd (evaluate_question h baml_schema (qs ! i)) = Inr (rs ! i)"
      using each that(1) by blast
    then show ?thesis
      using evaluate_question_pipeline_error[OF that(2) tb] by simp
  qed
  then show ?thesis
    using loop len by blast
qed

theorem pipeline_errors_do_not_stop_run_witness:
  \<open>\<exists>calls rs.
     evaluation_loop
       (example_harness failing_pipeline (Inr ''{"score": 5, "reasoning": "matches"}'')
          (Some (JObject [(''score'', JInt 5), (''reasoning'', JStr ''matches'')])))
       ''schema'' [keynote_question, venue_question] = (calls, Inr rs) \<and>
     length rs = 2 \<and>
     rec_score (rs ! 0) = 1 \<and> rec_label (rs ! 0) = ''no_answer'' \<and>
     rec_reasoning (rs ! 0) = JStr ''Exception: RuntimeError: query failed'' \<and>
     rec_score (rs ! 1) = 1 \<and> rec_label (rs ! 1) = ''no_answer''\<close>
proof -
  let ?h = \<open>example_harness failing_pipeline (Inr ''{"score": 5, "reasoning": "matches"}'')
          (Some (JObject [(''score'', JInt 5), (''reasoning'', JStr ''matches'')]))\<close>
  let ?qs = "[keynote_question, venue_question]"
  have judge: "\<forall>q b r. \<exists>sr. judge_response ?h q b r = Inr sr"
    by (simp add: judge_response_def example_harness_def parse_judge_reply_def judge_try_def)
  have tb: "\<forall>e. format_exc ?h e \<noteq> []"
    by (simp add: example_harness_def)
  have run: "\<exists>c. run (pipeline ?h) ''schema'' (q_question (?qs ! i)) =
      (c, Inl (ServiceError ''Binder exception: no property speakr''))" for i
    by (simp add: run_def example_harness_def failing_pipeline_def execute_query_def)
  have last: "last (splitlines (format_exc ?h e)) = ''RuntimeError: query failed''" for e
    by (simp add: example_harness_def splitlines_def is_linebreak_def)
  obtain calls rs where loop: "evaluation_loop ?h ''schema'' ?qs = (calls, Inr rs)"
    and len: "length rs = length ?qs"
    and each: "\<forall>i<length ?qs. \<forall>c e.
        run (pipeline ?h) ''schema'' (q_question (?qs ! i)) = (c, Inl e) \<longrightarrow>
        rs ! i =
          \<lparr>rec_id = q_id (?qs ! i), rec_question = q_question (?qs ! i),
           rec_baseline = q_baseline (?qs ! i), rec_cypher = [], rec_response = [],
           rec_score = 1, rec_label = ''no_answer'',
           rec_reasoning = JStr (''Exception: '' @ last (splitlines (format_exc ?h e))),
           rec_error = Some (format_exc ?h e)\<rparr>"
    using pipeline_errors_do_not_stop_run[OF judge tb, of "''schema''" ?qs] by blast
  obtain c0 where c0: "run (pipeline ?h) ''schema'' (q_question (?qs ! 0)) =
      (c0, Inl (ServiceError ''Binder exception: no property speakr''))"
    using run[of 0] by blast
  obtain c1 where c1: "run (pipeline ?h) ''schema'' (q_question (?qs ! 1)) =
      (c1, Inl (ServiceError ''Binder exception: no property speakr''))"
    using run[of 1] by blast
  have r0: "rec_score (rs ! 0) = 1 \<and> rec_label (rs ! 0) = ''no_answer'' \<and>
      rec_reasoning (rs ! 0) = JStr ''Exception: RuntimeError: query failed''"
    using each c0 last by simp
  have r1: "rec_score (rs ! 1) = 1 \<and> rec_label (rs ! 1) = ''no_answer''"
    using each c1 by simp
  show ?thesis
    using loop len r0 r1 by simp
qed

end
